theory Spec2Isabelle
  imports Main
begin

section \<open>Errors, panics and results\<close>

text \<open>
  A Go function that returns \<open>(T, error)\<close> is a function into \<open>failure + T\<close>.
  A failure is either an error value the caller can inspect, or a run-time panic, which
  no caller in this package recovers from and which therefore unwinds through every
  caller.
\<close>

datatype num_error = ErrSyntax | ErrRange

text \<open>
  The error values: \<open>io.EOF\<close>; an error of the network; \<open>&textproto.Error{Code, Msg}\<close>,
  written \<open>ProtocolError code msg\<close>; \<open>errors.New(s)\<close>; \<open>*strconv.NumError\<close>;
  \<open>*time.ParseError\<close>; and \<open>textproto.ProtocolError(s)\<close>, written \<open>MalformedReply s\<close>.
\<close>

datatype go_error =
    EOF
  | NetError string
  | ProtocolError int string
  | ErrorString string
  | NumError string string num_error
  | TimeParseError string
  | MalformedReply string

datatype go_panic = IndexOutOfRange | SliceBoundsOutOfRange

datatype failure = Err go_error | Panic go_panic

section \<open>Strings and numbers of the Go library\<close>

text \<open>
  A Go string is a sequence of bytes: \<open>string\<close>, a list of 8-bit characters.
  \<open>s[a:b]\<close> and \<open>xs[i]\<close> panic out of range.
\<close>

definition slice :: "'a list \<Rightarrow> int \<Rightarrow> int \<Rightarrow> failure + 'a list" where
  "slice s a b =
     (if 0 \<le> a \<and> a \<le> b \<and> b \<le> int (length s) then Inr (take (nat (b - a)) (drop (nat a) s))
      else Inl (Panic SliceBoundsOutOfRange))"

definition slice_from :: "'a list \<Rightarrow> int \<Rightarrow> failure + 'a list" where
  "slice_from s a = slice s a (int (length s))"

definition index_at :: "'a list \<Rightarrow> nat \<Rightarrow> failure + 'a" where
  "index_at xs i = (if i < length xs then Inr (xs ! i) else Inl (Panic IndexOutOfRange))"

definition HasPrefix :: "string \<Rightarrow> string \<Rightarrow> bool" where
  "HasPrefix s pre = (take (length pre) s = pre)"

text \<open>\<open>strings.Index\<close> and \<open>strings.LastIndex\<close>: the position of the first (last)
  occurrence, or -1.\<close>

fun Index :: "string \<Rightarrow> string \<Rightarrow> int" where
  "Index [] sub = (if sub = [] then 0 else -1)"
| "Index (c # cs) sub =
     (if HasPrefix (c # cs) sub then 0
      else (let i = Index cs sub in if i < 0 then -1 else i + 1))"

fun LastIndex :: "string \<Rightarrow> string \<Rightarrow> int" where
  "LastIndex [] sub = (if sub = [] then 0 else -1)"
| "LastIndex (c # cs) sub =
     (let i = LastIndex cs sub in
      if 0 \<le> i then i + 1 else if HasPrefix (c # cs) sub then 0 else -1)"

definition Contains :: "string \<Rightarrow> string \<Rightarrow> bool" where
  "Contains s sub = (0 \<le> Index s sub)"

text \<open>\<open>strings.Split(s, sep)\<close> for a separator of one byte, which is what every call
  of this package passes.\<close>

fun Split :: "string \<Rightarrow> char \<Rightarrow> string list" where
  "Split [] sep = [[]]"
| "Split (c # cs) sep =
     (if c = sep then [] # Split cs sep
      else (case Split cs sep of f # fs \<Rightarrow> (c # f) # fs | [] \<Rightarrow> [[c]]))"

definition isDigit :: "char \<Rightarrow> bool" where
  "isDigit c = (48 \<le> (of_char c :: nat) \<and> (of_char c :: nat) \<le> 57)"

definition digit_val :: "char \<Rightarrow> nat" where
  "digit_val c = of_char c - 48"

definition digit_char :: "nat \<Rightarrow> char" where
  "digit_char d = char_of (48 + d)"

text \<open>\<open>strconv.ParseUint(s, 10, 64)\<close>: the digits are read from the left; the first
  byte that is no digit is a syntax error, the first step that leaves 64 bits a range
  error.\<close>

fun parse_uint_loop :: "nat \<Rightarrow> string \<Rightarrow> num_error + nat" where
  "parse_uint_loop n [] = Inr n"
| "parse_uint_loop n (c # cs) =
     (if \<not> isDigit c then Inl ErrSyntax
      else if 2 ^ 64 \<le> n * 10 + digit_val c then Inl ErrRange
      else parse_uint_loop (n * 10 + digit_val c) cs)"

definition parse_uint :: "string \<Rightarrow> num_error + nat" where
  "parse_uint s = (if s = [] then Inl ErrSyntax else parse_uint_loop 0 s)"

definition ParseUint :: "string \<Rightarrow> failure + nat" where
  "ParseUint s =
     (case parse_uint s of
        Inl k \<Rightarrow> Inl (Err (NumError ''ParseUint'' s k))
      | Inr n \<Rightarrow> Inr n)"

text \<open>\<open>strconv.Atoi\<close> where \<open>int\<close> has 64 bits: an optional sign, then digits, then
  the check of the signed range.\<close>

definition Atoi :: "string \<Rightarrow> failure + int" where
  "Atoi s =
     (let neg = (s \<noteq> [] \<and> hd s = CHR ''-'');
          signed = (s \<noteq> [] \<and> (hd s = CHR ''-'' \<or> hd s = CHR ''+''));
          ds = (if signed then tl s else s)
      in case parse_uint ds of
           Inl ErrSyntax \<Rightarrow> Inl (Err (NumError ''Atoi'' s ErrSyntax))
         | Inl ErrRange \<Rightarrow> Inl (Err (NumError ''Atoi'' s ErrRange))
         | Inr un \<Rightarrow>
             if \<not> neg \<and> 2 ^ 63 \<le> un then Inl (Err (NumError ''Atoi'' s ErrRange))
             else if neg \<and> 2 ^ 63 < un then Inl (Err (NumError ''Atoi'' s ErrRange))
             else Inr (if neg then - int un else int un))"

text \<open>The decimal digits of a number, and \<open>strconv.Itoa\<close>.\<close>

fun digits :: "nat \<Rightarrow> string" where
  "digits n = (if n < 10 then [digit_char n] else digits (n div 10) @ [digit_char (n mod 10)])"

declare digits.simps [simp del]

definition Itoa :: "int \<Rightarrow> string" where
  "Itoa i = (if i < 0 then CHR ''-'' # digits (nat (- i)) else digits (nat i))"

text \<open>Arithmetic on \<open>int\<close> wraps around at 64 bits.\<close>

definition wrap64 :: "int \<Rightarrow> int" where
  "wrap64 x = (x + 2 ^ 63) mod 2 ^ 64 - 2 ^ 63"

definition JoinHostPort :: "string \<Rightarrow> string \<Rightarrow> string" where
  "JoinHostPort h p = (if CHR '':'' \<in> set h then ''['' @ h @ '']:'' @ p else h @ '':'' @ p)"


section \<open>The control connection, the data connections and the trace of socket operations\<close>

text \<open>
  The control connection (\<open>textproto.Conn\<close>) is a queue of server replies still to be
  read, the command lines written so far, the outcomes of the writes to come (an exhausted
  list means the write succeeds) and the outcome of closing the socket.  One
  \<open>ctrl_item\<close> is one complete server reply, or the failure of the read.
\<close>

datatype ctrl_item = Reply int string | ReadFails go_error

record textproto_Conn =
  incoming :: "ctrl_item list"
  outgoing :: "string list"
  write_results :: "go_error option list"
  close_result :: "go_error option"
  is_closed :: bool

text \<open>
  A data connection (\<open>net.Conn\<close>) holds the bytes the server sends on it, how the
  stream ends after them (\<open>None\<close> is a clean end of stream), the bytes the client wrote,
  and the outcome of closing it.
\<close>

record net_Conn =
  content :: string
  read_error :: "go_error option"
  received :: string
  nclose_result :: "go_error option"
  nclosed :: bool

datatype event =
    EvWrite string
  | EvRead
  | EvCtrlClose
  | EvDial string
  | EvDataClose nat

text \<open>
  The world is everything the methods of \<open>ServerConn\<close> mutate: the control connection
  that \<open>c.conn\<close> points to, the data connections dialled so far (a \<open>net.Conn\<close> value is
  the index of its connection), what dialling an address yields, and the trace of socket
  operations in the order they happened.
\<close>

record world =
  ctrl :: textproto_Conn
  socks :: "net_Conn list"
  listening :: "string \<Rightarrow> go_error + net_Conn"
  trace :: "event list"

record ServerConn =
  host :: string
  features :: "string \<rightharpoonup> string"
  TranslateEncoding :: bool
  ListDotDirs :: bool

record response =
  r_conn :: nat

text \<open>
  Modelled from the spec: the status-code constants are declared in a file of the
  repository that is not under src/; the spec calls them a fixed enumeration of the reply
  codes of RFC 959 and its extensions, whose values these are.
\<close>

definition StatusAlreadyOpen :: int where "StatusAlreadyOpen = 125"
definition StatusAboutToSend :: int where "StatusAboutToSend = 150"
definition StatusClosingDataConnection :: int where "StatusClosingDataConnection = 226"
definition StatusPassiveMode :: int where "StatusPassiveMode = 227"
definition StatusExtendedPassiveMode :: int where "StatusExtendedPassiveMode = 229"
definition StatusRequestFilePending :: int where "StatusRequestFilePending = 350"

subsection \<open>The operations of the control connection\<close>

definition closed_error :: go_error where
  "closed_error = NetError ''use of closed network connection''"

text \<open>\<open>c.conn.Cmd(format, args...)\<close>, with the command line already formatted.\<close>

definition conn_Cmd :: "string \<Rightarrow> world \<Rightarrow> go_error option \<times> world" where
  "conn_Cmd line w =
     (let c = ctrl w; w1 = w\<lparr>trace := trace w @ [EvWrite line]\<rparr> in
      if is_closed c then (Some closed_error, w1)
      else (case write_results c of
              Some e # rest \<Rightarrow> (Some e, w1\<lparr>ctrl := c\<lparr>write_results := rest\<rparr>\<rparr>)
            | None # rest \<Rightarrow>
                (None, w1\<lparr>ctrl := c\<lparr>write_results := rest, outgoing := outgoing c @ [line]\<rparr>\<rparr>)
            | [] \<Rightarrow> (None, w1\<lparr>ctrl := c\<lparr>outgoing := outgoing c @ [line]\<rparr>\<rparr>)))"

text \<open>The check of a reply code against the expected one, as \<open>net/textproto\<close> makes it.\<close>

definition code_mismatch :: "int \<Rightarrow> int \<Rightarrow> bool" where
  "code_mismatch expectCode code =
     (1 \<le> expectCode \<and> expectCode < 10 \<and> code div 100 \<noteq> expectCode
      \<or> 10 \<le> expectCode \<and> expectCode < 100 \<and> code div 10 \<noteq> expectCode
      \<or> 100 \<le> expectCode \<and> expectCode < 1000 \<and> code \<noteq> expectCode)"

text \<open>
  \<open>c.conn.ReadResponse(expectCode)\<close>: one reply is taken from the queue, with all its
  lines; a reply whose code does not match is a \<open>textproto.Error\<close> carrying the code and
  the message.  A reply of several lines is sent as \<open>ccc-text\<close>, ..., \<open>ccc-text\<close>,
  \<open>ccc text\<close>, and its message is the texts of its lines joined by line feeds: the
  replies of several lines are those whose message holds a line feed.
\<close>

definition conn_ReadResponse :: "int \<Rightarrow> world \<Rightarrow> (failure + int \<times> string) \<times> world" where
  "conn_ReadResponse expectCode w =
     (let c = ctrl w; w1 = w\<lparr>trace := trace w @ [EvRead]\<rparr> in
      if is_closed c then (Inl (Err closed_error), w1)
      else (case incoming c of
              [] \<Rightarrow> (Inl (Err EOF), w1)
            | ReadFails e # rest \<Rightarrow> (Inl (Err e), w1\<lparr>ctrl := c\<lparr>incoming := rest\<rparr>\<rparr>)
            | Reply code msg # rest \<Rightarrow>
                (if code_mismatch expectCode code then Inl (Err (ProtocolError code msg))
                 else Inr (code, msg),
                 w1\<lparr>ctrl := c\<lparr>incoming := rest\<rparr>\<rparr>)))"

text \<open>
  \<open>c.conn.ReadCodeLine(expectCode)\<close> reads one line only.  On a reply of one line it does
  what \<open>ReadResponse\<close> does.  Of a reply of several lines it takes the first line and
  fails: with a \<open>textproto.Error\<close> of that line when the code does not match, with the
  \<open>textproto.ProtocolError\<close> for an unexpected reply of several lines otherwise.  The
  further lines stay unread on the connection, where they are a reply of their own.
\<close>

definition conn_ReadCodeLine :: "int \<Rightarrow> world \<Rightarrow> (failure + int \<times> string) \<times> world" where
  "conn_ReadCodeLine expectCode w =
     (let c = ctrl w; w1 = w\<lparr>trace := trace w @ [EvRead]\<rparr> in
      if is_closed c then (Inl (Err closed_error), w1)
      else (case incoming c of
              [] \<Rightarrow> (Inl (Err EOF), w1)
            | ReadFails e # rest \<Rightarrow> (Inl (Err e), w1\<lparr>ctrl := c\<lparr>incoming := rest\<rparr>\<rparr>)
            | Reply code msg # rest \<Rightarrow>
                (let first = takeWhile (\<lambda>x. x \<noteq> CHR 0x0A) msg;
                     more = dropWhile (\<lambda>x. x \<noteq> CHR 0x0A) msg
                 in if more = [] then
                      (if code_mismatch expectCode code then Inl (Err (ProtocolError code msg))
                       else Inr (code, msg),
                       w1\<lparr>ctrl := c\<lparr>incoming := rest\<rparr>\<rparr>)
                    else
                      (if code_mismatch expectCode code then Inl (Err (ProtocolError code first))
                       else Inl (Err (MalformedReply (''unexpected multi-line response: '' @ first))),
                       w1\<lparr>ctrl := c\<lparr>incoming := Reply code (tl more) # rest\<rparr>\<rparr>))))"

definition conn_Close :: "world \<Rightarrow> go_error option \<times> world" where
  "conn_Close w =
     (let c = ctrl w; w1 = w\<lparr>trace := trace w @ [EvCtrlClose]\<rparr> in
      if is_closed c then (Some closed_error, w1)
      else (close_result c, w1\<lparr>ctrl := c\<lparr>is_closed := True\<rparr>\<rparr>))"

subsection \<open>The operations of a data connection\<close>

definition net_Close :: "nat \<Rightarrow> world \<Rightarrow> go_error option \<times> world" where
  "net_Close i w =
     (let w1 = w\<lparr>trace := trace w @ [EvDataClose i]\<rparr> in
      if i < length (socks w) then
        (let s = socks w ! i in
         if nclosed s then (Some closed_error, w1)
         else (nclose_result s, w1\<lparr>socks := (socks w)[i := s\<lparr>nclosed := True\<rparr>]\<rparr>))
      else (Some closed_error, w1))"

definition net_Dial :: "string \<Rightarrow> world \<Rightarrow> (failure + nat) \<times> world" where
  "net_Dial addr w =
     (let w1 = w\<lparr>trace := trace w @ [EvDial addr]\<rparr> in
      case listening w addr of
        Inl e \<Rightarrow> (Inl (Err e), w1)
      | Inr s \<Rightarrow> (Inr (length (socks w)), w1\<lparr>socks := socks w @ [s]\<rparr>))"

section \<open>Commands on the control connection\<close>

text \<open>\<open>cmd\<close>: send one command, read one reply, check its code.\<close>

definition cmd :: "int \<Rightarrow> string \<Rightarrow> world \<Rightarrow> (failure + int \<times> string) \<times> world" where
  "cmd expected line w =
     (case conn_Cmd line w of
        (Some err, w1) \<Rightarrow> (Inl (Err err), w1)
      | (None, w1) \<Rightarrow> conn_ReadResponse expected w1)"

text \<open>\<open>Quit\<close>: the result of \<open>Cmd\<close> is dropped, the result of \<open>Close\<close> is returned.\<close>

definition Quit :: "world \<Rightarrow> go_error option \<times> world" where
  "Quit w = (case conn_Cmd ''QUIT'' w of (_, w1) \<Rightarrow> conn_Close w1)"

text \<open>\<open>response.Close\<close>: close the data socket, then read the closing reply.\<close>

definition response_Close :: "response \<Rightarrow> world \<Rightarrow> go_error option \<times> world" where
  "response_Close r w =
     (case net_Close (r_conn r) w of
        (err, w1) \<Rightarrow>
          (case conn_ReadResponse StatusClosingDataConnection w1 of
             (Inl (Err err2), w2) \<Rightarrow> (Some err2, w2)
           | (Inl (Panic p), w2) \<Rightarrow> (err, w2)
           | (Inr _, w2) \<Rightarrow> (err, w2)))"

section \<open>Opening a data connection\<close>

text \<open>
  The parsing step of \<open>pasv\<close>, from the reply line on.  The named result \<open>port\<close> is
  assigned only on the last line, so every error return carries the port 0.
\<close>

definition pasv_parse :: "string \<Rightarrow> failure + int" where
  "pasv_parse line =
     (let start = Index line ''(''; end = LastIndex line '')'' in
      if start = -1 \<or> end = -1 then Inl (Err (ErrorString ''invalid EPSV response format''))
      else (case slice line (start + 1) end of
              Inl f \<Rightarrow> Inl f
            | Inr inner \<Rightarrow>
                (let pasvData = Split inner CHR '','' in
                 case index_at pasvData 4 of
                   Inl f \<Rightarrow> Inl f
                 | Inr d4 \<Rightarrow>
                     (case Atoi d4 of
                        Inl f \<Rightarrow> Inl f
                      | Inr portPart1 \<Rightarrow>
                          (case index_at pasvData 5 of
                             Inl f \<Rightarrow> Inl f
                           | Inr d5 \<Rightarrow>
                               (case Atoi d5 of
                                  Inl f \<Rightarrow> Inl f
                                | Inr portPart2 \<Rightarrow>
                                    Inr (wrap64 (wrap64 (portPart1 * 256) + portPart2))))))))"

definition pasv :: "world \<Rightarrow> (failure + int) \<times> world" where
  "pasv w =
     (case cmd StatusPassiveMode ''PASV'' w of
        (Inl f, w1) \<Rightarrow> (Inl f, w1)
      | (Inr (_, line), w1) \<Rightarrow> (pasv_parse line, w1))"

definition epsv_parse :: "string \<Rightarrow> failure + int" where
  "epsv_parse line =
     (let start = Index line ''|||''; end = LastIndex line ''|'' in
      if start = -1 \<or> end = -1 then Inl (Err (ErrorString ''invalid EPSV response format''))
      else (case slice line (start + 3) end of
              Inl f \<Rightarrow> Inl f
            | Inr field \<Rightarrow> Atoi field))"

definition epsv :: "world \<Rightarrow> (failure + int) \<times> world" where
  "epsv w =
     (case cmd StatusExtendedPassiveMode ''EPSV'' w of
        (Inl f, w1) \<Rightarrow> (Inl f, w1)
      | (Inr (_, line), w1) \<Rightarrow> (epsv_parse line, w1))"

text \<open>
  \<open>openDataConn\<close>: PASV when the server advertises neither nat6 nor EPSV, its error
  dropped (\<open>port, _ = c.pasv()\<close>, the port is then 0); EPSV when there is no port yet.
\<close>

definition openDataConn :: "ServerConn \<Rightarrow> world \<Rightarrow> (failure + nat) \<times> world" where
  "openDataConn c w =
     (let nat6Supported = (features c ''nat6'' \<noteq> None);
          epsvSupported = (features c ''EPSV'' \<noteq> None);
          first = (if \<not> nat6Supported \<and> \<not> epsvSupported then
                     (case pasv w of
                        (Inr port, w1) \<Rightarrow> (Inr port, w1)
                      | (Inl (Err _), w1) \<Rightarrow> (Inr 0, w1)
                      | (Inl (Panic p), w1) \<Rightarrow> (Inl (Panic p), w1))
                   else (Inr 0, w))
      in case first of
           (Inl f, w1) \<Rightarrow> (Inl f, w1)
         | (Inr port, w1) \<Rightarrow>
             (case (if port = 0 then epsv w1 else (Inr port, w1)) of
                (Inl f, w2) \<Rightarrow> (Inl f, w2)
              | (Inr port2, w2) \<Rightarrow> net_Dial (JoinHostPort (host c) (Itoa port2)) w2))"

text \<open>
  \<open>cmdDataConnFrom\<close>, with the command line already formatted.  The offset is a
  \<open>uint64\<close>.
\<close>

definition cmdDataConnFrom :: "ServerConn \<Rightarrow> nat \<Rightarrow> string \<Rightarrow> world \<Rightarrow> (failure + nat) \<times> world" where
  "cmdDataConnFrom c offset line w =
     (case openDataConn c w of
        (Inl f, w1) \<Rightarrow> (Inl f, w1)
      | (Inr conn, w1) \<Rightarrow>
          (case (if offset \<noteq> 0 then cmd StatusRequestFilePending (''REST '' @ digits offset) w1
                 else (Inr (0, []), w1)) of
             (Inl f, w2) \<Rightarrow> (Inl f, w2)
           | (Inr _, w2) \<Rightarrow>
               (case conn_Cmd line w2 of
                  (Some err, w3) \<Rightarrow>
                    (case net_Close conn w3 of (_, w4) \<Rightarrow> (Inl (Err err), w4))
                | (None, w3) \<Rightarrow>
                    (case conn_ReadCodeLine (-1) w3 of
                       (Inl f, w4) \<Rightarrow> (case net_Close conn w4 of (_, w5) \<Rightarrow> (Inl f, w5))
                     | (Inr (code, msg), w4) \<Rightarrow>
                         if code \<noteq> StatusAlreadyOpen \<and> code \<noteq> StatusAboutToSend then
                           (case net_Close conn w4 of
                              (_, w5) \<Rightarrow> (Inl (Err (ProtocolError code msg)), w5))
                         else (Inr conn, w4)))))"


section \<open>Concrete servers and worlds\<close>

definition fresh_conn :: net_Conn where
  "fresh_conn =
     \<lparr>content = [], read_error = None, received = [], nclose_result = None, nclosed = False\<rparr>"

definition example_ctrl :: "ctrl_item list \<Rightarrow> go_error option list \<Rightarrow> textproto_Conn" where
  "example_ctrl rs ws =
     \<lparr>incoming = rs, outgoing = [], write_results = ws, close_result = None, is_closed = False\<rparr>"

definition example_world :: "ctrl_item list \<Rightarrow> go_error option list \<Rightarrow> net_Conn list \<Rightarrow> world" where
  "example_world rs ws ss =
     \<lparr>ctrl = example_ctrl rs ws, socks = ss, listening = (\<lambda>a. Inr fresh_conn), trace = []\<rparr>"

definition example_server :: ServerConn where
  "example_server =
     \<lparr>host = ''h'', features = Map.empty, TranslateEncoding = False, ListDotDirs = False\<rparr>"

lemmas eval_char = char_of_def bit_iff_odd

lemmas eval_ctrl =
  cmd_def conn_Cmd_def conn_ReadResponse_def conn_ReadCodeLine_def conn_Close_def
  net_Close_def net_Dial_def code_mismatch_def example_world_def example_ctrl_def
  example_server_def fresh_conn_def Let_def

section \<open>Quit\<close>

lemma conn_Cmd_trace: "trace (snd (conn_Cmd line w)) = trace w @ [EvWrite line]"
  by (simp add: conn_Cmd_def Let_def split: list.splits option.splits)

lemma conn_Cmd_incoming: "incoming (ctrl (snd (conn_Cmd line w))) = incoming (ctrl w)"
  by (simp add: conn_Cmd_def Let_def split: list.splits option.splits)

lemma conn_Cmd_is_closed: "is_closed (ctrl (snd (conn_Cmd line w))) = is_closed (ctrl w)"
  by (simp add: conn_Cmd_def Let_def split: list.splits option.splits)

lemma conn_Cmd_close_result:
  "close_result (ctrl (snd (conn_Cmd line w))) = close_result (ctrl w)"
  by (simp add: conn_Cmd_def Let_def split: list.splits option.splits)

lemma conn_Cmd_socks: "socks (snd (conn_Cmd line w)) = socks w"
  by (simp add: conn_Cmd_def Let_def split: list.splits option.splits)

lemma Quit_unfold: "Quit w = conn_Close (snd (conn_Cmd ''QUIT'' w))"
  by (simp add: Quit_def split: prod.splits)

lemma conn_Cmd_outgoing:
  "outgoing (ctrl (snd (conn_Cmd line w))) =
     (if is_closed (ctrl w) then outgoing (ctrl w)
      else case write_results (ctrl w) of
             Some e # rest \<Rightarrow> outgoing (ctrl w)
           | None # rest \<Rightarrow> outgoing (ctrl w) @ [line]
           | [] \<Rightarrow> outgoing (ctrl w) @ [line])"
  by (simp add: conn_Cmd_def Let_def split: list.splits option.splits)

lemma conn_Cmd_write_results:
  "write_results (ctrl (snd (conn_Cmd line w))) =
     (if is_closed (ctrl w) then write_results (ctrl w) else tl (write_results (ctrl w)))"
  by (simp add: conn_Cmd_def Let_def split: list.splits option.splits)

text \<open>
  C10.  Quit writes the QUIT command and closes the control socket, in this order and
  with no read in between (the trace grows by exactly these two operations and the queue
  of unread replies is untouched); the error it returns is the outcome of closing the
  socket, whatever the outcome of the write and whatever the server has replied.  The
  write is a real one: on an open connection it uses up the outcome of the next write,
  and unless that outcome is an error the line QUIT is added to what the server has been
  sent; on a connection closed before, nothing is sent.  The data connections are not
  touched.
\<close>

theorem Quit_returns_close_result_only:
  "trace (snd (Quit w)) = trace w @ [EvWrite ''QUIT'', EvCtrlClose]
   \<and> incoming (ctrl (snd (Quit w))) = incoming (ctrl w)
   \<and> is_closed (ctrl (snd (Quit w)))
   \<and> fst (Quit w) = (if is_closed (ctrl w) then Some closed_error else close_result (ctrl w))
   \<and> fst (Quit (w\<lparr>ctrl := (ctrl w)\<lparr>incoming := rs, write_results := ws\<rparr>\<rparr>)) = fst (Quit w)
   \<and> outgoing (ctrl (snd (Quit w))) =
       (if is_closed (ctrl w) then outgoing (ctrl w)
        else case write_results (ctrl w) of
               Some e # rest \<Rightarrow> outgoing (ctrl w)
             | None # rest \<Rightarrow> outgoing (ctrl w) @ [''QUIT'']
             | [] \<Rightarrow> outgoing (ctrl w) @ [''QUIT''])
   \<and> write_results (ctrl (snd (Quit w))) =
       (if is_closed (ctrl w) then write_results (ctrl w) else tl (write_results (ctrl w)))
   \<and> close_result (ctrl (snd (Quit w))) = close_result (ctrl w)
   \<and> socks (snd (Quit w)) = socks w"
proof -
  let ?v = "w\<lparr>ctrl := (ctrl w)\<lparr>incoming := rs, write_results := ws\<rparr>\<rparr>"
  have result: "fst (Quit u) = (if is_closed (ctrl u) then Some closed_error else close_result (ctrl u))"
    for u
    by (simp add: Quit_unfold conn_Close_def Let_def conn_Cmd_is_closed conn_Cmd_close_result)
  have "trace (snd (Quit w)) = trace w @ [EvWrite ''QUIT'', EvCtrlClose]"
    by (simp add: Quit_unfold conn_Close_def Let_def conn_Cmd_trace)
  moreover have "incoming (ctrl (snd (Quit w))) = incoming (ctrl w)"
    by (simp add: Quit_unfold conn_Close_def Let_def conn_Cmd_incoming)
  moreover have "is_closed (ctrl (snd (Quit w)))"
    by (simp add: Quit_unfold conn_Close_def Let_def conn_Cmd_is_closed)
  moreover have "fst (Quit ?v) = fst (Quit w)"
    by (simp add: result)
  moreover have "outgoing (ctrl (snd (Quit w))) =
       (if is_closed (ctrl w) then outgoing (ctrl w)
        else case write_results (ctrl w) of
               Some e # rest \<Rightarrow> outgoing (ctrl w)
             | None # rest \<Rightarrow> outgoing (ctrl w) @ [''QUIT'']
             | [] \<Rightarrow> outgoing (ctrl w) @ [''QUIT''])"
    by (simp add: Quit_unfold conn_Close_def Let_def conn_Cmd_outgoing)
  moreover have "write_results (ctrl (snd (Quit w))) =
       (if is_closed (ctrl w) then write_results (ctrl w) else tl (write_results (ctrl w)))"
    by (simp add: Quit_unfold conn_Close_def Let_def conn_Cmd_write_results)
  moreover have "close_result (ctrl (snd (Quit w))) = close_result (ctrl w)"
    by (simp add: Quit_unfold conn_Close_def Let_def conn_Cmd_close_result)
  moreover have "socks (snd (Quit w)) = socks w"
    by (simp add: Quit_unfold conn_Close_def Let_def conn_Cmd_socks)
  ultimately show ?thesis
    using result [of w] by simp
qed

theorem Quit_returns_close_result_only_witness:
  "fst (Quit (example_world [Reply 500 ''Syntax error''] [Some (NetError ''broken pipe'')] [])) = None
   \<and> trace (snd (Quit (example_world [Reply 500 ''Syntax error''] [Some (NetError ''broken pipe'')] [])))
       = [EvWrite ''QUIT'', EvCtrlClose]
   \<and> incoming (ctrl (snd (Quit (example_world [Reply 500 ''Syntax error''] [Some (NetError ''broken pipe'')] []))))
       = [Reply 500 ''Syntax error'']
   \<and> outgoing (ctrl (snd (Quit (example_world [Reply 500 ''Syntax error''] [Some (NetError ''broken pipe'')] []))))
       = []
   \<and> outgoing (ctrl (snd (Quit (example_world [Reply 500 ''Syntax error''] [] [])))) = [''QUIT'']
   \<and> fst (Quit (example_world [Reply 500 ''Syntax error''] [] [])) = None"
  using Quit_returns_close_result_only
    [of "example_world [Reply 500 ''Syntax error''] [Some (NetError ''broken pipe'')] []"]
    Quit_returns_close_result_only [of "example_world [Reply 500 ''Syntax error''] [] []"]
  by (simp add: example_world_def example_ctrl_def)

section \<open>Closing the handle of a data connection\<close>

lemma net_Close_ctrl: "ctrl (snd (net_Close i w)) = ctrl w"
  by (simp add: net_Close_def Let_def)

lemma net_Close_trace: "trace (snd (net_Close i w)) = trace w @ [EvDataClose i]"
  by (simp add: net_Close_def Let_def)

lemma net_Close_closes:
  "i < length (socks w) \<Longrightarrow> nclosed (socks (snd (net_Close i w)) ! i)"
  by (simp add: net_Close_def Let_def)

lemma net_Close_result:
  "i < length (socks w) \<Longrightarrow> \<not> nclosed (socks w ! i) \<Longrightarrow>
   fst (net_Close i w) = nclose_result (socks w ! i)"
  by (simp add: net_Close_def Let_def)

lemma conn_ReadResponse_trace: "trace (snd (conn_ReadResponse e w)) = trace w @ [EvRead]"
  by (simp add: conn_ReadResponse_def Let_def split: list.splits ctrl_item.splits)

lemma conn_ReadResponse_socks: "socks (snd (conn_ReadResponse e w)) = socks w"
  by (simp add: conn_ReadResponse_def Let_def split: list.splits ctrl_item.splits)

lemma response_Close_unfold:
  "response_Close r w =
     (case fst (conn_ReadResponse StatusClosingDataConnection (snd (net_Close (r_conn r) w))) of
        Inl (Err err2) \<Rightarrow> Some err2
      | Inl (Panic p) \<Rightarrow> fst (net_Close (r_conn r) w)
      | Inr v \<Rightarrow> fst (net_Close (r_conn r) w),
      snd (conn_ReadResponse StatusClosingDataConnection (snd (net_Close (r_conn r) w))))"
  by (simp add: response_Close_def split: prod.splits sum.splits failure.splits)

lemma conn_ReadResponse_ctrl:
  "ctrl (snd (conn_ReadResponse e w)) =
     (if is_closed (ctrl w) then ctrl w else (ctrl w)\<lparr>incoming := tl (incoming (ctrl w))\<rparr>)"
  by (simp add: conn_ReadResponse_def Let_def split: list.splits ctrl_item.splits)

lemma conn_ReadResponse_result:
  "fst (conn_ReadResponse StatusClosingDataConnection w) =
     (if is_closed (ctrl w) then Inl (Err closed_error)
      else case incoming (ctrl w) of
             [] \<Rightarrow> Inl (Err EOF)
           | ReadFails e # rest \<Rightarrow> Inl (Err e)
           | Reply code msg # rest \<Rightarrow>
               if code = StatusClosingDataConnection then Inr (code, msg)
               else Inl (Err (ProtocolError code msg)))"
  by (simp add: conn_ReadResponse_def Let_def code_mismatch_def
      StatusClosingDataConnection_def split: list.splits ctrl_item.splits)

lemma net_Close_socks_other:
  "j \<noteq> i \<Longrightarrow> j < length (socks w) \<Longrightarrow> socks (snd (net_Close i w)) ! j = socks w ! j"
  by (simp add: net_Close_def Let_def)

lemma net_Close_length: "length (socks (snd (net_Close i w))) = length (socks w)"
  by (simp add: net_Close_def Let_def)

text \<open>
  C5.  Closing the handle of a data connection closes the data socket first and reads the
  reply of the control connection second (the trace grows by exactly these two
  operations, in this order, and the socket is closed afterwards).  The reply is taken
  off the control connection: the replies still to be read are the ones after it, and
  nothing else of the control connection changes.  The error of that read is what Close
  returns, whatever closing the socket returned: a control connection closed before, a
  failed read, an exhausted connection, or a reply whose code is not the
  closing-data-connection code.  Only when the reply has that code does Close return the
  outcome of closing the socket.
\<close>

theorem response_Close_socket_then_reply:
  "trace (snd (response_Close r w)) = trace w @ [EvDataClose (r_conn r), EvRead]
    \<and> (r_conn r < length (socks w) \<longrightarrow> nclosed (socks (snd (response_Close r w)) ! r_conn r))
    \<and> incoming (ctrl (snd (response_Close r w))) =
        (if is_closed (ctrl w) then incoming (ctrl w) else tl (incoming (ctrl w)))
    \<and> ctrl (snd (response_Close r w)) =
        (if is_closed (ctrl w) then ctrl w else (ctrl w)\<lparr>incoming := tl (incoming (ctrl w))\<rparr>)
    \<and> fst (response_Close r w) =
        (if is_closed (ctrl w) then Some closed_error
         else case incoming (ctrl w) of
                [] \<Rightarrow> Some EOF
              | ReadFails e # rest \<Rightarrow> Some e
              | Reply code msg # rest \<Rightarrow>
                  if code = StatusClosingDataConnection then fst (net_Close (r_conn r) w)
                  else Some (ProtocolError code msg))"
proof -
  let ?w1 = "snd (net_Close (r_conn r) w)"
  have tr: "trace (snd (response_Close r w)) = trace w @ [EvDataClose (r_conn r), EvRead]"
    by (simp add: response_Close_unfold conn_ReadResponse_trace net_Close_trace)
  have cl: "r_conn r < length (socks w) \<longrightarrow> nclosed (socks (snd (response_Close r w)) ! r_conn r)"
    by (simp add: response_Close_unfold conn_ReadResponse_socks net_Close_closes)
  have c1: "ctrl ?w1 = ctrl w"
    by (rule net_Close_ctrl)
  have ct: "ctrl (snd (response_Close r w)) =
        (if is_closed (ctrl w) then ctrl w else (ctrl w)\<lparr>incoming := tl (incoming (ctrl w))\<rparr>)"
    by (simp add: response_Close_unfold conn_ReadResponse_ctrl c1)
  have inc: "incoming (ctrl (snd (response_Close r w))) =
        (if is_closed (ctrl w) then incoming (ctrl w) else tl (incoming (ctrl w)))"
    by (simp add: ct)
  have rd: "fst (conn_ReadResponse StatusClosingDataConnection ?w1) =
     (if is_closed (ctrl w) then Inl (Err closed_error)
      else case incoming (ctrl w) of
             [] \<Rightarrow> Inl (Err EOF)
           | ReadFails e # rest \<Rightarrow> Inl (Err e)
           | Reply code msg # rest \<Rightarrow>
               if code = StatusClosingDataConnection then Inr (code, msg)
               else Inl (Err (ProtocolError code msg)))"
    by (simp only: conn_ReadResponse_result c1)
  have res: "fst (response_Close r w) =
        (if is_closed (ctrl w) then Some closed_error
         else case incoming (ctrl w) of
                [] \<Rightarrow> Some EOF
              | ReadFails e # rest \<Rightarrow> Some e
              | Reply code msg # rest \<Rightarrow>
                  if code = StatusClosingDataConnection then fst (net_Close (r_conn r) w)
                  else Some (ProtocolError code msg))"
    by (simp add: response_Close_unfold rd split: list.splits ctrl_item.splits)
  from tr cl inc ct res show ?thesis
    by (intro conjI)
qed

theorem response_Close_socket_then_reply_witness:
  "fst (response_Close \<lparr>r_conn = 0\<rparr>
          (example_world [Reply 451 ''Transfer aborted'', Reply 200 ''OK''] [] [fresh_conn]))
     = Some (ProtocolError 451 ''Transfer aborted'')
   \<and> fst (net_Close 0 (example_world [Reply 451 ''Transfer aborted'', Reply 200 ''OK''] [] [fresh_conn]))
     = None
   \<and> trace (snd (response_Close \<lparr>r_conn = 0\<rparr>
          (example_world [Reply 451 ''Transfer aborted'', Reply 200 ''OK''] [] [fresh_conn])))
     = [EvDataClose 0, EvRead]
   \<and> incoming (ctrl (snd (response_Close \<lparr>r_conn = 0\<rparr>
          (example_world [Reply 451 ''Transfer aborted'', Reply 200 ''OK''] [] [fresh_conn]))))
     = [Reply 200 ''OK'']
   \<and> nclosed (socks (snd (response_Close \<lparr>r_conn = 0\<rparr>
          (example_world [Reply 451 ''Transfer aborted'', Reply 200 ''OK''] [] [fresh_conn]))) ! 0)"
  using response_Close_socket_then_reply
    [of "\<lparr>r_conn = 0\<rparr>"
        "example_world [Reply 451 ''Transfer aborted'', Reply 200 ''OK''] [] [fresh_conn]"]
  by (simp add: eval_ctrl StatusClosingDataConnection_def)

section \<open>A data command with an offset\<close>

lemma digits_5: "digits 5 = ''5''"
  by (simp add: digits.simps digit_char_def eval_char)

lemma Itoa_1025: "Itoa 1025 = ''1025''"
  by (simp add: Itoa_def digits.simps digit_char_def eval_char)

lemma pasv_parse_example: "pasv_parse ''Entering Passive Mode (127,0,0,1,4,1).'' = Inr 1025"
  by (simp add: pasv_parse_def HasPrefix_def slice_def index_at_def Atoi_def parse_uint_def
      isDigit_def digit_val_def wrap64_def Let_def)

text \<open>
  When the REST command fails, \<open>cmdDataConnFrom\<close> returns at once: the world it leaves
  is the one the REST exchange left, in which no operation has touched the data
  connections.
\<close>

lemma cmd_socks: "socks (snd (cmd e line w)) = socks w"
  by (simp add: cmd_def conn_ReadResponse_socks conn_Cmd_socks split: prod.splits option.splits)
    (metis conn_Cmd_socks snd_conv)

lemma cmdDataConnFrom_REST_fails:
  assumes "openDataConn c w = (Inr conn, w1)" and "offset \<noteq> 0"
    and "cmd StatusRequestFilePending (''REST '' @ digits offset) w1 = (Inl f, w2)"
  shows "cmdDataConnFrom c offset line w = (Inl f, w2) \<and> socks w2 = socks w1"
  using assms cmd_socks [of StatusRequestFilePending "''REST '' @ digits offset" w1]
  by (simp add: cmdDataConnFrom_def)

text \<open>
  C1.  The code at a failing input: the server accepts PASV and rejects REST.  The error
  of the REST exchange is returned, the data connection dialled just before is still
  open in the world that is left, and the trace holds no close of a data connection.
\<close>

theorem cmdDataConnFrom_REST_rejected_leaves_socket_open:
  "cmdDataConnFrom example_server 5 ''RETR f''
     (example_world [Reply 227 ''Entering Passive Mode (127,0,0,1,4,1).'',
                     Reply 502 ''REST not implemented''] [] [])
   = (Inl (Err (ProtocolError 502 ''REST not implemented'')),
      \<lparr>ctrl = \<lparr>incoming = [], outgoing = [''PASV'', ''REST 5''], write_results = [],
                close_result = None, is_closed = False\<rparr>,
       socks = [fresh_conn],
       listening = (\<lambda>a. Inr fresh_conn),
       trace = [EvWrite ''PASV'', EvRead, EvDial ''h:1025'', EvWrite ''REST 5'', EvRead]\<rparr>)
   \<and> \<not> nclosed fresh_conn"
  by (simp add: cmdDataConnFrom_def openDataConn_def pasv_def eval_ctrl
      StatusPassiveMode_def StatusRequestFilePending_def
      pasv_parse_example Itoa_1025 digits_5 JoinHostPort_def)

section \<open>The reply to PASV\<close>

lemma Index_char_notin: "x \<notin> set s \<Longrightarrow> Index s [x] = -1"
  by (induction s) (auto simp: HasPrefix_def Let_def)

lemma Index_char_first: "x \<notin> set pre \<Longrightarrow> Index (pre @ x # rest) [x] = int (length pre)"
  by (induction pre) (auto simp: HasPrefix_def Let_def)

lemma Index_char_range: "-1 \<le> Index s [x] \<and> Index s [x] < int (length s) \<or> s = [] "
  by (induction s) (auto simp: HasPrefix_def Let_def)

lemma Index_char_in: "x \<in> set s \<Longrightarrow> 0 \<le> Index s [x]"
  by (induction s) (auto simp: HasPrefix_def Let_def)

lemma LastIndex_char_notin: "x \<notin> set s \<Longrightarrow> LastIndex s [x] = -1"
  by (induction s) (auto simp: HasPrefix_def Let_def)

lemma LastIndex_char_in: "x \<in> set s \<Longrightarrow> 0 \<le> LastIndex s [x]"
  by (induction s) (auto simp: HasPrefix_def Let_def)

lemma LastIndex_char_last:
  "x \<notin> set post \<Longrightarrow> LastIndex (pre @ x # post) [x] = int (length pre)"
  by (induction pre) (auto simp: HasPrefix_def Let_def LastIndex_char_notin)

lemma Split_nonempty: "Split s sep \<noteq> []"
  by (induction s) (auto split: list.splits)

lemma Split_no_sep: "sep \<notin> set f \<Longrightarrow> Split f sep = [f]"
  by (induction f) auto

lemma Split_field: "sep \<notin> set f \<Longrightarrow> Split (f @ sep # rest) sep = f # Split rest sep"
  by (induction f) (auto split: list.splits)

lemma wrap64_id: "- (2 ^ 63) \<le> x \<Longrightarrow> x < 2 ^ 63 \<Longrightarrow> wrap64 x = x"
  by (simp add: wrap64_def)

lemma wrap64_add: "wrap64 (wrap64 x + y) = wrap64 (x + y)"
  unfolding wrap64_def by (simp add: mod_simps algebra_simps)

lemma Atoi_no_panic: "Atoi s \<noteq> Inl (Panic p)"
  by (simp add: Atoi_def Let_def split: sum.splits num_error.splits)


lemma pasv_parse_delimited:
  assumes "CHR ''('' \<notin> set pre" and "CHR '')'' \<notin> set post"
  shows "pasv_parse (pre @ CHR ''('' # body @ CHR '')'' # post) =
     (let pasvData = Split body CHR '','' in
      case index_at pasvData 4 of
        Inl f \<Rightarrow> Inl f
      | Inr d4 \<Rightarrow>
          (case Atoi d4 of
             Inl f \<Rightarrow> Inl f
           | Inr portPart1 \<Rightarrow>
               (case index_at pasvData 5 of
                  Inl f \<Rightarrow> Inl f
                | Inr d5 \<Rightarrow>
                    (case Atoi d5 of
                       Inl f \<Rightarrow> Inl f
                     | Inr portPart2 \<Rightarrow> Inr (wrap64 (wrap64 (portPart1 * 256) + portPart2))))))"
proof -
  let ?line = "pre @ CHR ''('' # body @ CHR '')'' # post"
  have st: "Index ?line ''('' = int (length pre)"
    using Index_char_first [OF assms(1), of "body @ CHR '')'' # post"] by simp
  have en: "LastIndex ?line '')'' = int (length pre) + 1 + int (length body)"
    using LastIndex_char_last [OF assms(2), of "pre @ CHR ''('' # body"] by simp
  have sl: "slice ?line (int (length pre) + 1) (int (length pre) + 1 + int (length body)) = Inr body"
    by (simp add: slice_def nat_add_distrib)
  show ?thesis
    unfolding pasv_parse_def st en Let_def using sl by simp
qed

lemma Split_sextet:
  assumes "\<forall>f \<in> set [h1, h2, h3, h4, p1, p2]. CHR '','' \<notin> set f"
  shows "Split (h1 @ CHR '','' # h2 @ CHR '','' # h3 @ CHR '','' # h4 @ CHR '','' # p1 @ CHR '','' # p2) CHR '',''
         = [h1, h2, h3, h4, p1, p2]"
  using assms by (simp add: Split_field Split_no_sep)

lemma pasv_on_reply:
  assumes "\<not> is_closed (ctrl w)" and "write_results (ctrl w) = []"
    and "incoming (ctrl w) = Reply StatusPassiveMode line # rest"
  shows "fst (pasv w) = pasv_parse line"
  using assms
  by (simp add: pasv_def cmd_def conn_Cmd_def conn_ReadResponse_def code_mismatch_def
      StatusPassiveMode_def Let_def)

text \<open>
  C2 (amended).  When the text between the first \<open>(\<close> and the last \<open>)\<close> of the reply
  line is six comma-free fields \<open>h1,h2,h3,h4,p1,p2\<close>, and \<open>p1\<close> and \<open>p2\<close> are
  integers that \<open>Atoi\<close> accepts, with \<open>p1 * 256 + p2\<close> in the range of \<open>int\<close>, the
  parsing step of \<open>pasv\<close> returns the port \<open>p1 * 256 + p2\<close>.  For every line with no
  \<open>(\<close> or no \<open>)\<close> it returns the format error, and no port.
\<close>

theorem pasv_parse_port:
  "(CHR ''('' \<notin> set pre \<and> CHR '')'' \<notin> set post
    \<and> (\<forall>f \<in> set [h1, h2, h3, h4, p1, p2]. CHR '','' \<notin> set f)
    \<and> Atoi p1 = Inr a \<and> Atoi p2 = Inr b \<and> - (2 ^ 63) \<le> a * 256 + b \<and> a * 256 + b < 2 ^ 63
    \<longrightarrow> pasv_parse (pre @ ''('' @ h1 @ '','' @ h2 @ '','' @ h3 @ '','' @ h4 @ '','' @ p1 @ '','' @ p2
                      @ '')'' @ post) = Inr (a * 256 + b))
   \<and> (CHR ''('' \<notin> set line \<or> CHR '')'' \<notin> set line
    \<longrightarrow> pasv_parse line = Inl (Err (ErrorString ''invalid EPSV response format'')))"
proof (intro conjI impI)
  assume h: "CHR ''('' \<notin> set pre \<and> CHR '')'' \<notin> set post
    \<and> (\<forall>f \<in> set [h1, h2, h3, h4, p1, p2]. CHR '','' \<notin> set f)
    \<and> Atoi p1 = Inr a \<and> Atoi p2 = Inr b \<and> - (2 ^ 63) \<le> a * 256 + b \<and> a * 256 + b < 2 ^ 63"
  let ?body = "h1 @ CHR '','' # h2 @ CHR '','' # h3 @ CHR '','' # h4 @ CHR '','' # p1 @ CHR '','' # p2"
  have sp: "Split ?body CHR '','' = [h1, h2, h3, h4, p1, p2]"
    using h by (intro Split_sextet) blast
  have w: "wrap64 (wrap64 (a * 256) + b) = a * 256 + b"
    using h by (simp add: wrap64_add wrap64_id)
  have pd: "pasv_parse (pre @ CHR ''('' # ?body @ CHR '')'' # post) =
      (case Atoi p1 of
         Inl f \<Rightarrow> Inl f
       | Inr portPart1 \<Rightarrow>
           (case Atoi p2 of
              Inl f \<Rightarrow> Inl f
            | Inr portPart2 \<Rightarrow> Inr (wrap64 (wrap64 (portPart1 * 256) + portPart2))))"
    using h pasv_parse_delimited [of pre post ?body] by (simp only: sp Let_def) (simp add: index_at_def)
  have "pasv_parse (pre @ CHR ''('' # ?body @ CHR '')'' # post) = Inr (a * 256 + b)"
    using h by (simp only: pd) (simp add: w)
  then show "pasv_parse (pre @ ''('' @ h1 @ '','' @ h2 @ '','' @ h3 @ '','' @ h4 @ '','' @ p1 @ '','' @ p2
                      @ '')'' @ post) = Inr (a * 256 + b)"
    by simp
next
  assume "CHR ''('' \<notin> set line \<or> CHR '')'' \<notin> set line"
  then have "Index line ''('' = -1 \<or> LastIndex line '')'' = -1"
    using Index_char_notin LastIndex_char_notin by blast
  then show "pasv_parse line = Inl (Err (ErrorString ''invalid EPSV response format''))"
    by (auto simp: pasv_parse_def Let_def)
qed

lemma Atoi_4: "Atoi ''4'' = Inr 4"
  by (simp add: Atoi_def parse_uint_def isDigit_def digit_val_def)

lemma Atoi_1: "Atoi ''1'' = Inr 1"
  by (simp add: Atoi_def parse_uint_def isDigit_def digit_val_def)

theorem pasv_parse_port_witness:
  "pasv_parse ''Entering Passive Mode (127,0,0,1,4,1).'' = Inr 1025
   \<and> pasv_parse ''Entering Passive Mode 127,0,0,1,4,1'' = Inl (Err (ErrorString ''invalid EPSV response format''))"
  using pasv_parse_port [of "''Entering Passive Mode ''" "''.''" "''127''" "''0''" "''0''" "''1''" "''4''" "''1''" 4 1
      "''Entering Passive Mode 127,0,0,1,4,1''"]
  by (simp add: Atoi_4 Atoi_1)

text \<open>
  The claim as stated, for every line that contains a parenthesized sextet, fails when
  an earlier parenthesis holds a comma: the fields are counted from the first \<open>(\<close>.
\<close>

theorem pasv_parse_earlier_parenthesis_counterexample:
  "pasv_parse ''Entering Passive Mode (a,b) (1,2,3,4,5,6)'' = Inr 1029
   \<and> (1029 :: int) \<noteq> 5 * 256 + 6"
  by (simp add: pasv_parse_def HasPrefix_def slice_def index_at_def Atoi_def parse_uint_def
      isDigit_def digit_val_def wrap64_def Let_def)

text \<open>
  C8 (amended).  Where the reply holds both parentheses, first \<open>(\<close> before last \<open>)\<close>:
  with at least six comma-separated fields between them the parsing step never panics;
  with fewer than five it indexes the fields out of range; with exactly five it indexes
  out of range exactly when \<open>Atoi\<close> accepts the fifth, and returns the error of
  \<open>Atoi\<close> otherwise.
\<close>

theorem pasv_parse_index_fault:
  assumes "CHR ''('' \<notin> set pre" and "CHR '')'' \<notin> set post"
  shows "(6 \<le> length (Split body CHR '','')
            \<longrightarrow> (\<forall>p. pasv_parse (pre @ CHR ''('' # body @ CHR '')'' # post) \<noteq> Inl (Panic p)))
       \<and> (length (Split body CHR '','') < 5
            \<longrightarrow> pasv_parse (pre @ CHR ''('' # body @ CHR '')'' # post) = Inl (Panic IndexOutOfRange))
       \<and> (length (Split body CHR '','') = 5
            \<longrightarrow> pasv_parse (pre @ CHR ''('' # body @ CHR '')'' # post) =
                (case Atoi (Split body CHR '','' ! 4) of
                   Inl f \<Rightarrow> Inl f
                 | Inr portPart1 \<Rightarrow> Inl (Panic IndexOutOfRange)))"
proof (intro conjI impI allI)
  fix p
  assume "6 \<le> length (Split body CHR '','')"
  then show "pasv_parse (pre @ CHR ''('' # body @ CHR '')'' # post) \<noteq> Inl (Panic p)"
    using Atoi_no_panic
    by (auto simp: pasv_parse_delimited [OF assms] index_at_def Let_def split: sum.splits)
next
  assume "length (Split body CHR '','') < 5"
  then show "pasv_parse (pre @ CHR ''('' # body @ CHR '')'' # post) = Inl (Panic IndexOutOfRange)"
    by (simp add: pasv_parse_delimited [OF assms] index_at_def Let_def)
next
  assume "length (Split body CHR '','') = 5"
  then show "pasv_parse (pre @ CHR ''('' # body @ CHR '')'' # post) =
                (case Atoi (Split body CHR '','' ! 4) of
                   Inl f \<Rightarrow> Inl f
                 | Inr portPart1 \<Rightarrow> Inl (Panic IndexOutOfRange))"
    by (simp add: pasv_parse_delimited [OF assms] index_at_def Let_def split: sum.splits)
qed

theorem pasv_parse_index_fault_witness:
  "pasv_parse ''227 (1,2,3)'' = Inl (Panic IndexOutOfRange)
   \<and> pasv_parse ''227 (1,2,3,4,5)'' = Inl (Panic IndexOutOfRange)
   \<and> pasv_parse ''227 (1,2,3,4,5,x)'' \<noteq> Inl (Panic IndexOutOfRange)"
  using pasv_parse_index_fault [of "''227 ''" "[]" "''1,2,3''"]
    pasv_parse_index_fault [of "''227 ''" "[]" "''1,2,3,4,5''"]
    pasv_parse_index_fault [of "''227 ''" "[]" "''1,2,3,4,5,x''"]
  by (simp add: Atoi_def parse_uint_def isDigit_def digit_val_def)

text \<open>
  The claim as stated, an out-of-range access for every reply with fewer than six fields,
  fails at five fields of which the fifth is no number: the error of \<open>Atoi\<close> is
  returned before the sixth field is read.
\<close>

theorem pasv_parse_five_fields_counterexample:
  "Index ''227 (1,2,3,4,x)'' ''('' = 4 \<and> LastIndex ''227 (1,2,3,4,x)'' '')'' = 14
   \<and> slice ''227 (1,2,3,4,x)'' 5 14 = Inr ''1,2,3,4,x''
   \<and> length (Split ''1,2,3,4,x'' CHR '','') = 5
   \<and> pasv_parse ''227 (1,2,3,4,x)'' = Inl (Err (NumError ''Atoi'' ''x'' ErrSyntax))"
  by (simp add: pasv_parse_def HasPrefix_def slice_def index_at_def Atoi_def parse_uint_def
      isDigit_def digit_val_def wrap64_def Let_def)

text \<open>A last \<open>)\<close> before the first \<open>(\<close> makes the slice of the line panic.\<close>

lemma pasv_parse_reversed_parentheses:
  "pasv_parse '')('' = Inl (Panic SliceBoundsOutOfRange)"
  by (simp add: pasv_parse_def HasPrefix_def slice_def Let_def)

end
